theory Spec2Isabelle
  imports Complex_Main
begin

section \<open>Python values shared by the services\<close>

text \<open>
  A Python \<open>str\<close> is modelled as a \<open>string\<close>: one \<open>char\<close> per character, for texts whose
  code points lie below 256. Python integers are \<open>int\<close>. An exception is a value: its class
  and the message that \<open>str(e)\<close> returns.
\<close>

datatype exn_kind = FileNotFoundError | ValueError | IndexError | AttributeError | OtherError

datatype py_exn = Raise exn_kind string

fun exn_str :: "py_exn \<Rightarrow> string" where
  "exn_str (Raise k msg) = msg"

text \<open>\<open>str.isspace\<close> on the code points below 256.\<close>

definition isspace :: "char \<Rightarrow> bool" where
  "isspace c = ((of_char c :: nat) \<in> {9, 10, 11, 12, 13, 28, 29, 30, 31, 32, 133, 160})"

text \<open>\<open>s.strip()\<close>: leading and trailing whitespace removed.\<close>

definition strip :: "string \<Rightarrow> string" where
  "strip s = rev (dropWhile isspace (rev (dropWhile isspace s)))"

text \<open>\<open>s[i]\<close>: a negative index counts from the end; out of range raises IndexError.\<close>

definition py_getitem :: "string \<Rightarrow> int \<Rightarrow> py_exn + char" where
  "py_getitem s i =
     (let n = int (length s); j = (if i < 0 then i + n else i)
      in if 0 \<le> j \<and> j < n then Inr (s ! nat j)
         else Inl (Raise IndexError ''string index out of range''))"

text \<open>\<open>s[a:b]\<close>: negative bounds count from the end, then both are clamped to the string.\<close>

definition py_slice :: "string \<Rightarrow> int \<Rightarrow> int \<Rightarrow> string" where
  "py_slice s a b =
     (let n = int (length s);
          lo = (if a < 0 then max (a + n) 0 else min a n);
          hi = (if b < 0 then max (b + n) 0 else min b n)
      in take (nat (hi - lo)) (drop (nat lo) s))"

text \<open>The configuration values the core reads (\<open>core/config.py\<close>).\<close>

record settings =
  CHUNK_SIZE :: int
  CHUNK_OVERLAP :: int
  TOP_K_RETRIEVAL :: int

definition default_settings :: settings where
  "default_settings = \<lparr>CHUNK_SIZE = 1000, CHUNK_OVERLAP = 200, TOP_K_RETRIEVAL = 5\<rparr>"

section \<open>The chunker: \<open>DocumentProcessor.chunk_text\<close>\<close>

text \<open>
  The characters of the literal \<open>'.!?\\n'\<close> of line 68: a full stop, an exclamation mark, a
  question mark, a backslash and the letter n (the source escapes the backslash, so the
  literal holds no newline).
\<close>

definition sentence_marks :: string where
  "sentence_marks = [CHR ''.'', CHR ''!'', CHR ''?'', CHR 0x5C, CHR ''n'']"

text \<open>
  The inner \<open>for i in range(end, max(start + chunk_size - 100, start), -1)\<close>, from \<open>i\<close> down
  to \<open>stop\<close> (exclusive): the new \<open>end\<close> at the first hit, \<open>None\<close> when the range is
  exhausted, the IndexError of \<open>text[i]\<close> otherwise.
\<close>

function find_break :: "string \<Rightarrow> int \<Rightarrow> int \<Rightarrow> py_exn + int option" where
  "find_break s i stop =
     (if stop < i then
        (case py_getitem s i of
           Inl e \<Rightarrow> Inl e
         | Inr c \<Rightarrow> if c \<in> set sentence_marks then Inr (Some (i + 1))
                    else find_break s (i - 1) stop)
      else Inr None)"
  by pat_completeness auto
termination
  by (relation "measure (\<lambda>(s, i, stop). nat (i - stop))") auto

declare find_break.simps [simp del]

text \<open>
  One pass through the body of the \<open>while\<close> loop (lines 62 to 80): the next \<open>start\<close> and
  the chunks collected so far, or the exception the body raises.
\<close>

definition chunk_step ::
  "string \<Rightarrow> int \<Rightarrow> int \<Rightarrow> int \<Rightarrow> string list \<Rightarrow> py_exn + (int \<times> string list)" where
  "chunk_step s chunk_size overlap start chunks =
     (case (if start + chunk_size < int (length s)
            then find_break s (start + chunk_size) (max (start + chunk_size - 100) start)
            else Inr None) of
        Inl e \<Rightarrow> Inl e
      | Inr brk \<Rightarrow>
          (let e = (case brk of None \<Rightarrow> start + chunk_size | Some j \<Rightarrow> j);
               chunk = strip (py_slice s start e);
               chunks' = (if chunk \<noteq> [] then chunks @ [chunk] else chunks);
               start' = (if e - overlap \<ge> e then e else e - overlap)
           in Inr (start', chunks')))"

text \<open>
  The \<open>while start < len(text)\<close> loop. It need not terminate, so the result is an option:
  \<open>None\<close> when the loop runs forever, \<open>Some (Inl e)\<close> when it raises, \<open>Some (Inr chunks)\<close>
  when it returns.
\<close>

partial_function (option) chunk_loop ::
  "string \<Rightarrow> int \<Rightarrow> int \<Rightarrow> int \<Rightarrow> string list \<Rightarrow> (py_exn + string list) option" where
  "chunk_loop s chunk_size overlap start chunks =
     (if start < int (length s) then
        (case chunk_step s chunk_size overlap start chunks of
           Inl e \<Rightarrow> Some (Inl e)
         | Inr (start', chunks') \<Rightarrow> chunk_loop s chunk_size overlap start' chunks')
      else Some (Inr chunks))"

declare chunk_loop.simps [code]

definition chunk_text ::
  "settings \<Rightarrow> string \<Rightarrow> int option \<Rightarrow> int option \<Rightarrow> (py_exn + string list) option" where
  "chunk_text st s chunk_size overlap =
     (let cs = (case chunk_size of None \<Rightarrow> CHUNK_SIZE st | Some c \<Rightarrow> c);
          ov = (case overlap of None \<Rightarrow> CHUNK_OVERLAP st | Some v \<Rightarrow> v)
      in if int (length s) \<le> cs then Some (Inr [s])
         else chunk_loop s cs ov 0 [])"

section \<open>Ingestion: \<open>DocumentProcessorService\<close>\<close>

text \<open>
  Metadata dictionaries map string keys to Python values; the model has the scalar values
  that the file facts and the vector index use.
\<close>

datatype py_value = PyStr string | PyInt int | PyBool bool | PyNone

type_synonym metadata = "string \<rightharpoonup> py_value"

text \<open>\<open>metadata or {}\<close>: \<open>None\<close> and the empty dictionary both give the empty dictionary.\<close>

definition or_empty :: "metadata option \<Rightarrow> metadata" where
  "or_empty md = (case md of None \<Rightarrow> Map.empty | Some m \<Rightarrow> m)"

text \<open>\<open>s.split()\<close>: the maximal runs of non-whitespace characters.\<close>

fun split_ws :: "string \<Rightarrow> string \<Rightarrow> string list" where
  "split_ws w [] = (if w = [] then [] else [w])"
| "split_ws w (c # cs) =
     (if isspace c then (if w = [] then split_ws [] cs else w # split_ws [] cs)
      else split_ws (w @ [c]) cs)"

definition py_split :: "string \<Rightarrow> string list" where
  "py_split s = split_ws [] s"

text \<open>\<open>s.lower()\<close> on the code points below 256, and \<open>s.lstrip('.')\<close>.\<close>

definition lower_char :: "char \<Rightarrow> char" where
  "lower_char c =
     (let n = (of_char c :: nat)
      in if (65 \<le> n \<and> n \<le> 90) \<or> (192 \<le> n \<and> n \<le> 222 \<and> n \<noteq> 215)
         then char_of (n + 32) else c)"

definition py_lower :: "string \<Rightarrow> string" where
  "py_lower s = map lower_char s"

definition lstrip_dots :: "string \<Rightarrow> string" where
  "lstrip_dots s = dropWhile (\<lambda>c. c = CHR ''.'') s"

text \<open>\<open>sub in s\<close> for strings: \<open>sub\<close> occurs in \<open>s\<close> as a contiguous run.\<close>

fun contains :: "string \<Rightarrow> string \<Rightarrow> bool" where
  "contains [] sub = (sub = [])"
| "contains (c # cs) sub = (take (length sub) (c # cs) = sub \<or> contains cs sub)"

text \<open>The four extractor classes and the extensions each one reports.\<close>

datatype processor = PDFProcessor | DOCXProcessor | TXTProcessor | MarkdownProcessor

fun get_supported_extensions :: "processor \<Rightarrow> string list" where
  "get_supported_extensions PDFProcessor = [''pdf'']"
| "get_supported_extensions DOCXProcessor = [''docx'']"
| "get_supported_extensions TXTProcessor = [''txt'']"
| "get_supported_extensions MarkdownProcessor = [''md'', ''markdown'']"

text \<open>\<open>self.processors\<close>, in the insertion order of the dictionary of line 214.\<close>

definition processors :: "(string \<times> processor) list" where
  "processors = [(''pdf'', PDFProcessor), (''docx'', DOCXProcessor),
                 (''txt'', TXTProcessor), (''md'', MarkdownProcessor)]"

text \<open>
  What \<open>process_document\<close> reads from its \<open>file_path\<close> argument and from the file system
  through it. Each call into pathlib or into an extraction library either returns a value
  or raises. \<open>fp_extract\<close> is the outcome of \<open>extract_text\<close> of each extractor on this
  file.
\<close>

record file_path =
  fp_str :: string
  fp_name :: string
  fp_suffix :: string
  fp_exists :: "py_exn + bool"
  fp_st_size :: "py_exn + int"
  fp_extract :: "processor \<Rightarrow> py_exn + string"

definition get_processor_for_file :: "file_path \<Rightarrow> processor option" where
  "get_processor_for_file f =
     (let extension = lstrip_dots (py_lower (fp_suffix f))
      in find (\<lambda>p. extension \<in> set (get_supported_extensions p)) (map snd processors))"

text \<open>
  \<open>str(Path.ctime(file_path))\<close> of line 273. The class \<open>pathlib.Path\<close> has no attribute
  \<open>ctime\<close>, so the attribute lookup raises an AttributeError for every path, with the
  message \<open>type object 'Path' has no attribute 'ctime'\<close>.
\<close>

definition msg_no_ctime :: string where
  "msg_no_ctime = ''type object '' @ [CHR 0x27] @ ''Path'' @ [CHR 0x27]
                  @ '' has no attribute '' @ [CHR 0x27] @ ''ctime'' @ [CHR 0x27]"

definition path_ctime :: "file_path \<Rightarrow> py_exn + string" where
  "path_ctime f = Inl (Raise AttributeError msg_no_ctime)"

text \<open>The messages of the three exceptions that \<open>process_document\<close> raises itself.\<close>

definition msg_not_found :: string where
  "msg_not_found = ''Arquivo n'' @ [CHR 0xE3] @ ''o encontrado: ''"

definition msg_unsupported :: string where
  "msg_unsupported = ''Tipo de arquivo n'' @ [CHR 0xE3] @ ''o suportado: ''"

definition msg_empty :: string where
  "msg_empty = ''Nenhum texto extra'' @ [CHR 0xED] @ ''do do documento''"

definition nao_suportado :: string where
  "nao_suportado = ''n'' @ [CHR 0xE3] @ ''o suportado''"

text \<open>The returned dictionary; \<open>r_error\<close> is \<open>None\<close> when the key \<open>'error'\<close> is absent.\<close>

record pd_result =
  r_text :: string
  r_chunks :: "string list"
  r_metadata :: metadata
  r_success :: bool
  r_error :: "string option"

text \<open>The entries of \<open>file_metadata\<close> that come before \<open>**(metadata or {})\<close>.\<close>

definition file_facts ::
  "file_path \<Rightarrow> string \<Rightarrow> string list \<Rightarrow> int \<Rightarrow> string \<Rightarrow> metadata" where
  "file_facts f extracted_text chunks st_size ctime =
     [''file_name'' \<mapsto> PyStr (fp_name f),
      ''file_size'' \<mapsto> PyInt st_size,
      ''file_type'' \<mapsto> PyStr (lstrip_dots (py_lower (fp_suffix f))),
      ''word_count'' \<mapsto> PyInt (int (length (py_split extracted_text))),
      ''chunk_count'' \<mapsto> PyInt (int (length chunks)),
      ''processed_at'' \<mapsto> PyStr ctime]"

text \<open>
  The body of the \<open>try\<close> block (lines 247 to 289): \<open>None\<close> when chunking never returns,
  \<open>Some (Inl e)\<close> when the block raises \<open>e\<close>, \<open>Some (Inr result)\<close> when it returns.
\<close>

definition process_document_body ::
  "settings \<Rightarrow> file_path \<Rightarrow> metadata option \<Rightarrow> (py_exn + pd_result) option" where
  "process_document_body st f md =
     (case fp_exists f of
        Inl e \<Rightarrow> Some (Inl e)
      | Inr False \<Rightarrow> Some (Inl (Raise FileNotFoundError (msg_not_found @ fp_str f)))
      | Inr True \<Rightarrow>
     (case get_processor_for_file f of
        None \<Rightarrow> Some (Inl (Raise ValueError (msg_unsupported @ fp_suffix f)))
      | Some processor \<Rightarrow>
     (case fp_extract f processor of
        Inl e \<Rightarrow> Some (Inl e)
      | Inr extracted_text \<Rightarrow>
     if strip extracted_text = [] then Some (Inl (Raise ValueError msg_empty))
     else
     (case chunk_text st extracted_text None None of
        None \<Rightarrow> None
      | Some (Inl e) \<Rightarrow> Some (Inl e)
      | Some (Inr chunks) \<Rightarrow>
     (case fp_st_size f of
        Inl e \<Rightarrow> Some (Inl e)
      | Inr st_size \<Rightarrow>
     (case path_ctime f of
        Inl e \<Rightarrow> Some (Inl e)
      | Inr ctime \<Rightarrow>
          Some (Inr \<lparr>r_text = extracted_text,
                     r_chunks = chunks,
                     r_metadata = file_facts f extracted_text chunks st_size ctime ++ or_empty md,
                     r_success = True,
                     r_error = None\<rparr>)))))))"

text \<open>The dictionary that the \<open>except Exception as e\<close> handler returns (lines 293 to 299).\<close>

definition failure_result :: "metadata option \<Rightarrow> py_exn \<Rightarrow> pd_result" where
  "failure_result md e =
     \<lparr>r_text = [], r_chunks = [], r_metadata = or_empty md,
      r_success = False, r_error = Some (exn_str e)\<rparr>"

text \<open>\<open>process_document\<close>: the \<open>try\<close> block with its handler.\<close>

definition process_document ::
  "settings \<Rightarrow> file_path \<Rightarrow> metadata option \<Rightarrow> pd_result option" where
  "process_document st f md =
     (case process_document_body st f md of
        None \<Rightarrow> None
      | Some (Inr result) \<Rightarrow> Some result
      | Some (Inl e) \<Rightarrow> Some (failure_result md e))"

text \<open>Files used as concrete inputs below.\<close>

definition missing_csv :: file_path where
  "missing_csv = \<lparr>fp_str = ''notes.csv'', fp_name = ''notes.csv'', fp_suffix = ''.csv'',
     fp_exists = Inr False,
     fp_st_size = Inl (Raise FileNotFoundError ''notes.csv''),
     fp_extract = (\<lambda>p. Inl (Raise FileNotFoundError ''notes.csv''))\<rparr>"

definition table_csv :: file_path where
  "table_csv = \<lparr>fp_str = ''data/Table.CSV'', fp_name = ''Table.CSV'', fp_suffix = ''.CSV'',
     fp_exists = Inr True,
     fp_st_size = Inr 12,
     fp_extract = (\<lambda>p. Inr ''a,b,c'')\<rparr>"

definition hello_txt :: file_path where
  "hello_txt = \<lparr>fp_str = ''docs/hello.TXT'', fp_name = ''hello.TXT'', fp_suffix = ''.TXT'',
     fp_exists = Inr True,
     fp_st_size = Inr 11,
     fp_extract = (\<lambda>p. Inr ''hello world'')\<rparr>"

section \<open>The vector index: \<open>VectorStoreService\<close>\<close>

text \<open>\<open>str(n)\<close> for an integer, as the f-strings format it: decimal digits, \<open>-\<close> when negative.\<close>

function str_nat :: "nat \<Rightarrow> string" where
  "str_nat n = (if n < 10 then [char_of (48 + n)]
                else str_nat (n div 10) @ [char_of (48 + n mod 10)])"
  by pat_completeness auto
termination
  by (relation "measure (\<lambda>n. n)") auto

declare str_nat.simps [simp del]

definition str_int :: "int \<Rightarrow> string" where
  "str_int i = (if i < 0 then CHR ''-'' # str_nat (nat (- i)) else str_nat (nat i))"

definition get_collection_name :: "int \<Rightarrow> string" where
  "get_collection_name persona_id = ''persona_'' @ str_int persona_id @ ''_knowledge''"

text \<open>
  The ChromaDB client is a library outside the repository. It is modelled as a store of
  collections by name, each a list of records; a collection handle is the name of its
  collection. \<open>chroma_add\<close> skips identifiers already stored and refuses an empty batch,
  \<open>chroma_query\<close> returns the \<open>n_results\<close> records nearest to the query among those
  matching the equality filter, with their distances; every operation on a collection that
  does not exist raises. The embedding distance is a parameter of the store.
\<close>

record chroma_record =
  rec_id :: string
  rec_document :: string
  rec_metadata :: metadata

type_synonym chroma_client = "string \<rightharpoonup> chroma_record list"

definition chroma_missing :: py_exn where
  "chroma_missing = Raise ValueError ''Collection does not exist''"

definition chroma_get_or_create_collection :: "chroma_client \<Rightarrow> string \<Rightarrow> chroma_client" where
  "chroma_get_or_create_collection db collection_name =
     (case db collection_name of None \<Rightarrow> db(collection_name \<mapsto> []) | Some recs \<Rightarrow> db)"

definition chroma_add ::
  "chroma_client \<Rightarrow> string \<Rightarrow> chroma_record list \<Rightarrow> py_exn + chroma_client" where
  "chroma_add db h new =
     (case db h of
        None \<Rightarrow> Inl chroma_missing
      | Some recs \<Rightarrow>
          if new = [] then Inl (Raise ValueError ''Expected a non-empty list of documents'')
          else Inr (db(h \<mapsto> recs @ filter (\<lambda>r. rec_id r \<notin> rec_id ` set recs) new)))"

definition matches_where :: "(string \<times> py_value) list option \<Rightarrow> chroma_record \<Rightarrow> bool" where
  "matches_where w r =
     (case w of None \<Rightarrow> True | Some kvs \<Rightarrow> list_all (\<lambda>(k, v). rec_metadata r k = Some v) kvs)"

definition chroma_query ::
  "(string \<Rightarrow> string \<Rightarrow> real) \<Rightarrow> chroma_client \<Rightarrow> string \<Rightarrow> string \<Rightarrow> int \<Rightarrow>
   (string \<times> py_value) list option \<Rightarrow> py_exn + (chroma_record \<times> real) list" where
  "chroma_query distance db h query n_results w =
     (case db h of
        None \<Rightarrow> Inl chroma_missing
      | Some recs \<Rightarrow>
          if n_results \<le> 0 then Inl (Raise ValueError ''Number of requested results must be positive'')
          else Inr (take (nat n_results)
                 (sort_key snd (map (\<lambda>r. (r, distance query (rec_document r)))
                                    (filter (matches_where w) recs)))))"

definition chroma_get ::
  "chroma_client \<Rightarrow> string \<Rightarrow> (string \<times> py_value) list option \<Rightarrow> py_exn + chroma_record list" where
  "chroma_get db h w =
     (case db h of None \<Rightarrow> Inl chroma_missing | Some recs \<Rightarrow> Inr (filter (matches_where w) recs))"

definition chroma_delete :: "chroma_client \<Rightarrow> string \<Rightarrow> string list \<Rightarrow> py_exn + chroma_client" where
  "chroma_delete db h ids =
     (case db h of
        None \<Rightarrow> Inl chroma_missing
      | Some recs \<Rightarrow> Inr (db(h \<mapsto> filter (\<lambda>r. rec_id r \<notin> set ids) recs)))"

definition chroma_delete_collection :: "chroma_client \<Rightarrow> string \<Rightarrow> py_exn + chroma_client" where
  "chroma_delete_collection db collection_name =
     (case db collection_name of
        None \<Rightarrow> Inl chroma_missing
      | Some recs \<Rightarrow> Inr (db(collection_name := None)))"

text \<open>
  The service object: \<open>self.client\<close> (\<open>None\<close> until \<open>initialize\<close> has run),
  \<open>self.collections\<close> (the cache of handles by collection name) and the distance of
  \<open>self.embedding_function\<close>.
\<close>

record vector_store =
  client :: "chroma_client option"
  collections :: "string \<rightharpoonup> string"
  embedding_distance :: "string \<Rightarrow> string \<Rightarrow> real"

definition no_client :: py_exn where
  "no_client = Raise AttributeError ''NoneType object has no attribute''"

definition get_or_create_collection ::
  "vector_store \<Rightarrow> int \<Rightarrow> (py_exn + string) \<times> vector_store" where
  "get_or_create_collection vs persona_id =
     (let collection_name = get_collection_name persona_id
      in case collections vs collection_name of
           Some h \<Rightarrow> (Inr h, vs)
         | None \<Rightarrow>
            (case client vs of
               None \<Rightarrow> (Inl no_client, vs)
             | Some db \<Rightarrow>
                 (Inr collection_name,
                  vs\<lparr>client := Some (chroma_get_or_create_collection db collection_name),
                     collections := (collections vs)(collection_name \<mapsto> collection_name)\<rparr>)))"

text \<open>The identifier and the metadata that \<open>add_document\<close> gives to the chunk at index \<open>i\<close>.\<close>

definition chunk_record :: "string \<Rightarrow> metadata \<Rightarrow> nat \<Rightarrow> string \<Rightarrow> chroma_record" where
  "chunk_record document_id md i chunk =
     (let chunk_id = document_id @ ''_chunk_'' @ str_nat i
      in \<lparr>rec_id = chunk_id,
          rec_document = chunk,
          rec_metadata = md ++ [''chunk_index'' \<mapsto> PyInt (int i),
                                ''document_id'' \<mapsto> PyStr document_id,
                                ''chunk_id'' \<mapsto> PyStr chunk_id]\<rparr>)"

definition add_document ::
  "vector_store \<Rightarrow> int \<Rightarrow> string \<Rightarrow> string list \<Rightarrow> metadata \<Rightarrow> bool \<times> vector_store" where
  "add_document vs persona_id document_id text_chunks md =
     (case get_or_create_collection vs persona_id of
        (Inl e, vs') \<Rightarrow> (False, vs')
      | (Inr h, vs') \<Rightarrow>
          (case client vs' of
             None \<Rightarrow> (False, vs')
           | Some db \<Rightarrow>
              (case chroma_add db h
                      (map (\<lambda>(i, chunk). chunk_record document_id md i chunk)
                           (zip [0..<length text_chunks] text_chunks)) of
                 Inl e \<Rightarrow> (False, vs')
               | Inr db' \<Rightarrow> (True, vs'\<lparr>client := Some db'\<rparr>))))"

text \<open>One entry of the list that \<open>search_similar_content\<close> returns.\<close>

record similarity_result =
  sr_content :: string
  sr_metadata :: metadata
  sr_distance :: real
  sr_id :: "string option"

definition search_similar_content ::
  "settings \<Rightarrow> vector_store \<Rightarrow> int \<Rightarrow> string \<Rightarrow> int option \<Rightarrow> (string \<times> py_value) list option \<Rightarrow>
   similarity_result list \<times> vector_store" where
  "search_similar_content st vs persona_id query n_results filter_metadata =
     (case get_or_create_collection vs persona_id of
        (Inl e, vs') \<Rightarrow> ([], vs')
      | (Inr h, vs') \<Rightarrow>
          (case client vs' of
             None \<Rightarrow> ([], vs')
           | Some db \<Rightarrow>
              (let n = (case n_results of None \<Rightarrow> TOP_K_RETRIEVAL st | Some k \<Rightarrow> k)
               in case chroma_query (embedding_distance vs') db h query n filter_metadata of
                    Inl e \<Rightarrow> ([], vs')
                  | Inr results \<Rightarrow>
                      (map (\<lambda>(r, d). \<lparr>sr_content = rec_document r,
                                       sr_metadata = rec_metadata r,
                                       sr_distance = d,
                                       sr_id = Some (rec_id r)\<rparr>) results,
                       vs'))))"

definition delete_document :: "vector_store \<Rightarrow> int \<Rightarrow> string \<Rightarrow> bool \<times> vector_store" where
  "delete_document vs persona_id document_id =
     (case get_or_create_collection vs persona_id of
        (Inl e, vs') \<Rightarrow> (False, vs')
      | (Inr h, vs') \<Rightarrow>
          (case client vs' of
             None \<Rightarrow> (False, vs')
           | Some db \<Rightarrow>
              (case chroma_get db h (Some [(''document_id'', PyStr document_id)]) of
                 Inl e \<Rightarrow> (False, vs')
               | Inr found \<Rightarrow>
                   if found \<noteq> [] then
                     (case chroma_delete db h (map rec_id found) of
                        Inl e \<Rightarrow> (False, vs')
                      | Inr db' \<Rightarrow> (True, vs'\<lparr>client := Some db'\<rparr>))
                   else (False, vs'))))"

definition clear_persona_collection :: "vector_store \<Rightarrow> int \<Rightarrow> bool \<times> vector_store" where
  "clear_persona_collection vs persona_id =
     (let collection_name = get_collection_name persona_id
      in case client vs of
           None \<Rightarrow> (False, vs)
         | Some db \<Rightarrow>
            (case chroma_delete_collection db collection_name of
               Inl e \<Rightarrow> (False, vs)
             | Inr db' \<Rightarrow>
                 (True, vs\<lparr>client := Some db',
                           collections := (collections vs)(collection_name := None)\<rparr>)))"

text \<open>
  The states of the service: the object as constructed, after \<open>initialize\<close> (the
  persistent client opens whatever the disk holds), and after any operation.
\<close>

definition new_vector_store :: "(string \<Rightarrow> string \<Rightarrow> real) \<Rightarrow> vector_store" where
  "new_vector_store distance =
     \<lparr>client = None, collections = Map.empty, embedding_distance = distance\<rparr>"

definition initialize :: "vector_store \<Rightarrow> chroma_client \<Rightarrow> vector_store" where
  "initialize vs db = vs\<lparr>client := Some db\<rparr>"

inductive reachable :: "vector_store \<Rightarrow> bool" where
  new: "reachable (new_vector_store distance)"
| init: "reachable vs \<Longrightarrow> reachable (initialize vs db)"
| add: "reachable vs \<Longrightarrow> reachable (snd (add_document vs p d chunks md))"
| search: "reachable vs \<Longrightarrow> reachable (snd (search_similar_content st vs p query n w))"
| delete: "reachable vs \<Longrightarrow> reachable (snd (delete_document vs p d))"
| clear: "reachable vs \<Longrightarrow> reachable (snd (clear_persona_collection vs p))"

text \<open>The records of a persona's collection, \<open>None\<close> when there is no such collection.\<close>

definition persona_records :: "vector_store \<Rightarrow> int \<Rightarrow> chroma_record list option" where
  "persona_records vs persona_id =
     (case client vs of None \<Rightarrow> None | Some db \<Rightarrow> db (get_collection_name persona_id))"

section \<open>The context assembler: \<open>AIService._get_relevant_context\<close>\<close>

text \<open>\<open>bool(v)\<close> and \<open>str(v)\<close> of a metadata value, and \<open>sep.join(parts)\<close>.\<close>

fun truthy :: "py_value \<Rightarrow> bool" where
  "truthy (PyStr s) = (s \<noteq> [])"
| "truthy (PyInt n) = (n \<noteq> 0)"
| "truthy (PyBool b) = b"
| "truthy PyNone = False"

fun py_str :: "py_value \<Rightarrow> string" where
  "py_str (PyStr s) = s"
| "py_str (PyInt n) = str_int n"
| "py_str (PyBool b) = (if b then ''True'' else ''False'')"
| "py_str PyNone = ''None''"

fun py_join :: "string \<Rightarrow> string list \<Rightarrow> string" where
  "py_join sep [] = []"
| "py_join sep [x] = x"
| "py_join sep (x # y # ys) = x @ sep @ py_join sep (y # ys)"

text \<open>The header line of the result numbered \<open>i\<close> (lines 261 to 265, without the colon).\<close>

definition doc_info :: "nat \<Rightarrow> similarity_result \<Rightarrow> string" where
  "doc_info i doc =
     (case sr_metadata doc ''title'' of
        None \<Rightarrow> ''Documento '' @ str_nat i
      | Some title \<Rightarrow>
          if truthy title then ''Documento '' @ str_nat i @ '' - '' @ py_str title
          else ''Documento '' @ str_nat i)"

text \<open>The \<open>for i, doc in enumerate(..., 1)\<close> loop: three parts for each result.\<close>

fun doc_parts :: "nat \<Rightarrow> similarity_result list \<Rightarrow> string list" where
  "doc_parts i [] = []"
| "doc_parts i (doc # docs) =
     [doc_info i doc @ '':'', py_slice (sr_content doc) 0 500, ''---''] @ doc_parts (Suc i) docs"

definition context_parts :: "similarity_result list \<Rightarrow> string list" where
  "context_parts similar_docs =
     ''CONTEXTO DA BASE DE CONHECIMENTO:'' # doc_parts 1 (take 3 similar_docs)"

text \<open>
  The body after the search call, given what the call produced: an exception (the
  \<open>except\<close> branch) or the list of results. The separator of line 269 is the literal
  \<open>"\\n"\<close>, a backslash followed by the letter n.
\<close>

definition assemble_context :: "py_exn + similarity_result list \<Rightarrow> string" where
  "assemble_context outcome =
     (case outcome of
        Inl e \<Rightarrow> []
      | Inr similar_docs \<Rightarrow>
          if similar_docs = [] then []
          else py_join [CHR 0x5C, CHR ''n''] (context_parts similar_docs))"

definition get_relevant_context ::
  "settings \<Rightarrow> vector_store \<Rightarrow> int \<Rightarrow> string \<Rightarrow> string \<times> vector_store" where
  "get_relevant_context st vs persona_id query =
     (case search_similar_content st vs persona_id query (Some (TOP_K_RETRIEVAL st)) None of
        (similar_docs, vs') \<Rightarrow> (assemble_context (Inr similar_docs), vs'))"

section \<open>Auxiliary notions for the proofs\<close>

text \<open>
  The inverse of \<open>str_nat\<close>; the invariant of the cache of handles (a cached handle is the
  handle of the collection it is filed under); the records stored under a collection name;
  what an operation on the collection \<open>name\<close> leaves alone; and the list that a search
  returns from the records of one collection.
\<close>

definition parse_nat :: "string \<Rightarrow> nat" where
  "parse_nat s = foldl (\<lambda>a c. 10 * a + (of_char c - 48)) 0 s"

definition cache_ok :: "vector_store \<Rightarrow> bool" where
  "cache_ok vs = (\<forall>n h. collections vs n = Some h \<longrightarrow> h = n)"

definition collection_records :: "vector_store \<Rightarrow> string \<Rightarrow> chroma_record list option" where
  "collection_records vs n = (case client vs of None \<Rightarrow> None | Some db \<Rightarrow> db n)"

definition untouched_outside :: "string \<Rightarrow> vector_store \<Rightarrow> vector_store \<Rightarrow> bool" where
  "untouched_outside name vs vs' =
     (embedding_distance vs' = embedding_distance vs
      \<and> (client vs' = None \<longleftrightarrow> client vs = None)
      \<and> (\<forall>n. n \<noteq> name \<longrightarrow>
            collections vs' n = collections vs n
          \<and> collection_records vs' n = collection_records vs n))"

definition ranked_results ::
  "(string \<Rightarrow> string \<Rightarrow> real) \<Rightarrow> chroma_record list \<Rightarrow> string \<Rightarrow> int \<Rightarrow>
   (string \<times> py_value) list option \<Rightarrow> similarity_result list" where
  "ranked_results distance recs query n w =
     (if n \<le> 0 then []
      else map (\<lambda>(r, d). \<lparr>sr_content = rec_document r, sr_metadata = rec_metadata r,
                          sr_distance = d, sr_id = Some (rec_id r)\<rparr>)
             (take (nat n) (sort_key snd (map (\<lambda>r. (r, distance query (rec_document r)))
                                             (filter (matches_where w) recs)))))"

text \<open>Stores and search results used as concrete inputs below.\<close>

definition exact_distance :: "string \<Rightarrow> string \<Rightarrow> real" where
  "exact_distance query doc = (if query = doc then 0 else 1)"

definition store_one :: vector_store where
  "store_one = snd (add_document (initialize (new_vector_store exact_distance) Map.empty)
                      1 ''doc'' [''hello'', ''world''] Map.empty)"

definition sample_results :: "similarity_result list" where
  "sample_results =
     [\<lparr>sr_content = ''hello'', sr_metadata = [''title'' \<mapsto> PyStr ''Guide''],
       sr_distance = 0, sr_id = Some ''a_chunk_0''\<rparr>,
      \<lparr>sr_content = replicate 600 (CHR ''x''), sr_metadata = Map.empty,
       sr_distance = 1, sr_id = Some ''a_chunk_1''\<rparr>,
      \<lparr>sr_content = ''third'', sr_metadata = [''title'' \<mapsto> PyStr []],
       sr_distance = 2, sr_id = Some ''b_chunk_0''\<rparr>,
      \<lparr>sr_content = ''fourth'', sr_metadata = Map.empty,
       sr_distance = 3, sr_id = Some ''b_chunk_1''\<rparr>]"

section \<open>Properties of the chunker\<close>

lemma find_break_in_range:
  "0 \<le> stop \<Longrightarrow> i < int (length s) \<Longrightarrow>
   \<exists>r. find_break s i stop = Inr r \<and> (\<forall>e. r = Some e \<longrightarrow> stop + 2 \<le> e \<and> e \<le> i + 1)"
proof (induction s i stop rule: find_break.induct)
  case (1 s i stop)
  show ?case
  proof (cases "stop < i")
    case False
    then show ?thesis by (simp add: find_break.simps)
  next
    case True
    with "1.prems" have get: "py_getitem s i = Inr (s ! nat i)"
      by (simp add: py_getitem_def)
    show ?thesis
    proof (cases "s ! nat i \<in> set sentence_marks")
      case hit: True
      with True get show ?thesis by (simp add: find_break.simps)
    next
      case miss: False
      from "1.IH" [OF True get miss] "1.prems"
      obtain r where "find_break s (i - 1) stop = Inr r"
        and "\<forall>e. r = Some e \<longrightarrow> stop + 2 \<le> e \<and> e \<le> i" by auto
      with True get miss show ?thesis
        by (subst find_break.simps) auto
    qed
  qed
qed

lemma chunk_step_advances:
  assumes "0 \<le> start" and "0 \<le> overlap" and "overlap + 99 \<le> chunk_size"
  shows "\<exists>start' chunks'. chunk_step s chunk_size overlap start chunks = Inr (start', chunks')
           \<and> start < start'"
proof (cases "start + chunk_size < int (length s)")
  case False
  with assms show ?thesis by (simp add: chunk_step_def Let_def)
next
  case True
  from assms have "0 \<le> max (start + chunk_size - 100) start" by simp
  from find_break_in_range [OF this True]
  obtain r where r: "find_break s (start + chunk_size) (max (start + chunk_size - 100) start) = Inr r"
    and bound: "\<forall>e. r = Some e \<longrightarrow> max (start + chunk_size - 100) start + 2 \<le> e" by auto
  show ?thesis
  proof (cases r)
    case None
    with True r assms show ?thesis by (simp add: chunk_step_def Let_def)
  next
    case (Some e)
    with bound have "start + chunk_size - 98 \<le> e" by auto
    with Some True r assms show ?thesis by (simp add: chunk_step_def Let_def)
  qed
qed

lemma chunk_loop_returns:
  assumes "0 \<le> overlap" and "overlap + 99 \<le> chunk_size"
  shows "0 \<le> start \<Longrightarrow> \<exists>r. chunk_loop s chunk_size overlap start chunks = Some (Inr r)"
proof (induction "nat (int (length s) - start)" arbitrary: start chunks rule: less_induct)
  case less
  show ?case
  proof (cases "start < int (length s)")
    case False
    then show ?thesis by (subst chunk_loop.simps) simp
  next
    case True
    from chunk_step_advances [OF less.prems assms]
    obtain start' chunks' where
      step: "chunk_step s chunk_size overlap start chunks = Inr (start', chunks')"
      and adv: "start < start'" by blast
    from adv True have "nat (int (length s) - start') < nat (int (length s) - start)" by simp
    moreover from adv less.prems have "0 \<le> start'" by simp
    ultimately obtain r where "chunk_loop s chunk_size overlap start' chunks' = Some (Inr r)"
      using less.hyps by blast
    with True step show ?thesis by (subst chunk_loop.simps) simp
  qed
qed

text \<open>
  With the shipped configuration (and any other one whose overlap is non-negative and at
  least 99 characters below the chunk size) chunking returns a list of chunks.
\<close>

lemma chunk_text_returns:
  assumes "0 \<le> CHUNK_OVERLAP st" and "CHUNK_OVERLAP st + 99 \<le> CHUNK_SIZE st"
  shows "\<exists>r. chunk_text st s None None = Some (Inr r)"
  using chunk_loop_returns [OF assms, of 0 s "[]"] by (simp add: chunk_text_def Let_def)

text \<open>
  The loop revisits a state: on \<open>'a.bbb'\<close> with \<open>chunk_size = 3\<close> and \<open>overlap = 2\<close> the
  window starting at 0 is cut after the full stop at index 1, and \<open>end - overlap\<close> is 0 again.
\<close>

lemma chunk_step_cycle:
  "chunk_step ''a.bbb'' 3 2 0 chunks = Inr (0, chunks @ [''a.''])"
  by (simp add: chunk_step_def find_break.simps py_getitem_def sentence_marks_def
      py_slice_def strip_def isspace_def)

lemma chunk_loop_cycle:
  assumes "chunk_loop s cs ov start chunks = Some y"
  shows "\<not> (s = ''a.bbb'' \<and> cs = 3 \<and> ov = 2 \<and> start = 0)"
proof (rule chunk_loop.raw_induct
    [where P = "\<lambda>s cs ov start chunks y. \<not> (s = ''a.bbb'' \<and> cs = 3 \<and> ov = 2 \<and> start = 0)",
     OF _ assms])
  fix f s cs ov start chunks y
  assume IH: "\<And>s cs ov start chunks y. f s cs ov start chunks = Some y \<Longrightarrow>
      \<not> (s = ''a.bbb'' \<and> cs = 3 \<and> ov = 2 \<and> start = (0::int))"
    and step: "(if start < int (length s) then
        (case chunk_step s cs ov start chunks of
           Inl e \<Rightarrow> Some (Inl e)
         | Inr (start', chunks') \<Rightarrow> f s cs ov start' chunks')
      else Some (Inr chunks)) = Some y"
  show "\<not> (s = ''a.bbb'' \<and> cs = 3 \<and> ov = 2 \<and> start = 0)"
  proof
    assume "s = ''a.bbb'' \<and> cs = 3 \<and> ov = 2 \<and> start = 0"
    with step have "f ''a.bbb'' 3 2 0 (chunks @ [''a.'']) = Some y"
      by (simp add: chunk_step_cycle)
    with IH show False by blast
  qed
qed

text \<open>
  C1. The claim: the backward scan looks for the nearest of full stop, exclamation mark,
  question mark and newline, and cuts right after it; with none in the lookback window the
  cut is at the raw offset. The code's set of marks holds a backslash and the letter n in
  place of the newline. On \<open>'ab\ncdef'\<close> with \<open>chunk_size = 4\<close> the newline at index 2 is
  passed over and the window is cut at the raw offset 4; on \<open>'an apple pie'\<close> with
  \<open>chunk_size = 6\<close> the first window is cut after the letter n at index 1, although no
  sentence ends there.
\<close>

theorem chunk_text_marks_evaluated:
  "chunk_text st (''ab'' @ [CHR 0x0A] @ ''cdef'') (Some 4) (Some 0)
     = Some (Inr [''ab'' @ [CHR 0x0A] @ ''c'', ''def''])
   \<and> chunk_text st ''an apple pie'' (Some 6) (Some 0)
     = Some (Inr [''an'', ''apple'', ''pie''])"
  by (simp add: chunk_text_def chunk_loop.simps chunk_step_def find_break.simps
      py_getitem_def sentence_marks_def py_slice_def strip_def isspace_def)

text \<open>
  C2. The claim: for a text longer than \<open>chunk_size\<close> and \<open>0 \<le> overlap < chunk_size\<close> the
  chunking loop terminates. On \<open>'a.bbb'\<close> with \<open>chunk_size = 3\<close> and \<open>overlap = 2\<close> the loop
  of the code never ends: the call has no result.
\<close>

theorem chunk_text_diverges:
  "int (length ''a.bbb'') > 3 \<and> (0::int) \<le> 2 \<and> (2::int) < 3
   \<and> chunk_text st ''a.bbb'' (Some 3) (Some 2) = None"
proof (cases "chunk_loop ''a.bbb'' 3 2 0 []")
  case None
  then show ?thesis by (simp add: chunk_text_def)
next
  case (Some y)
  with chunk_loop_cycle show ?thesis by blast
qed

text \<open>
  C3. The claim: every chunk returned for a text longer than \<open>chunk_size\<close>, with
  \<open>0 \<le> overlap < chunk_size\<close>, has at most \<open>chunk_size\<close> characters. The scan starts at the
  index \<open>end\<close> itself, so a mark at that index moves the cut to \<open>end + 1\<close>: on \<open>'abc.d'\<close>
  with \<open>chunk_size = 3\<close> and \<open>overlap = 0\<close> the first chunk has 4 characters.
\<close>

theorem chunk_text_long_chunk:
  "chunk_text st ''abc.d'' (Some 3) (Some 0) = Some (Inr [''abc.'', ''d''])
   \<and> length ''abc.'' = 4"
  by (simp add: chunk_text_def chunk_loop.simps chunk_step_def find_break.simps
      py_getitem_def sentence_marks_def py_slice_def strip_def isspace_def)

text \<open>
  C4. A text of at most \<open>chunk_size\<close> characters (the configured size when the argument is
  omitted) comes back as the one-element list holding the text itself, not stripped,
  whatever the overlap.
\<close>

theorem chunk_text_short:
  "int (length s) \<le> (case chunk_size of None \<Rightarrow> CHUNK_SIZE st | Some c \<Rightarrow> c) \<Longrightarrow>
   chunk_text st s chunk_size overlap = Some (Inr [s])"
  by (simp add: chunk_text_def Let_def)

theorem chunk_text_short_witness:
  "int (length ''  hi  '') \<le> (case Some 10 of None \<Rightarrow> CHUNK_SIZE default_settings | Some c \<Rightarrow> c)
   \<and> chunk_text default_settings ''  hi  '' (Some 10) (Some 3) = Some (Inr [''  hi  ''])"
  using chunk_text_short [where s = "''  hi  ''" and chunk_size = "Some 10"
      and st = default_settings and overlap = "Some 3"] by simp

section \<open>Properties of the ingestion pipeline\<close>

lemma contains_append: "contains (pre @ sub @ post) sub"
proof (induction pre)
  case Nil
  have "take (length sub) (sub @ post) = sub" by simp
  then show ?case by (cases "sub @ post") auto
next
  case (Cons c pre)
  then show ?case by simp
qed

lemma unsupported_contains: "contains (msg_unsupported @ suffix) nao_suportado"
proof -
  have "msg_unsupported @ suffix = ''Tipo de arquivo '' @ nao_suportado @ ('': '' @ suffix)"
    by (simp add: msg_unsupported_def nao_suportado_def)
  then show ?thesis by (simp only: contains_append)
qed

lemma csv_no_processor: "fp_suffix f = ''.csv'' \<Longrightarrow> get_processor_for_file f = None"
  by (simp add: get_processor_for_file_def processors_def py_lower_def lower_char_def
      lstrip_dots_def)

lemma pd_missing:
  "fp_exists f = Inr False \<Longrightarrow>
   process_document st f md
     = Some (failure_result md (Raise FileNotFoundError (msg_not_found @ fp_str f)))"
  by (simp add: process_document_def process_document_body_def)

lemma pd_exists_raises:
  "fp_exists f = Inl e \<Longrightarrow> process_document st f md = Some (failure_result md e)"
  by (simp add: process_document_def process_document_body_def)

lemma pd_unsupported:
  "fp_exists f = Inr True \<Longrightarrow> get_processor_for_file f = None \<Longrightarrow>
   process_document st f md
     = Some (failure_result md (Raise ValueError (msg_unsupported @ fp_suffix f)))"
  by (simp add: process_document_def process_document_body_def)

lemma pd_extract_raises:
  "fp_exists f = Inr True \<Longrightarrow> get_processor_for_file f = Some p \<Longrightarrow> fp_extract f p = Inl e \<Longrightarrow>
   process_document st f md = Some (failure_result md e)"
  by (simp add: process_document_def process_document_body_def)

lemma pd_blank:
  "fp_exists f = Inr True \<Longrightarrow> get_processor_for_file f = Some p \<Longrightarrow> fp_extract f p = Inr t \<Longrightarrow>
   strip t = [] \<Longrightarrow>
   process_document st f md = Some (failure_result md (Raise ValueError msg_empty))"
  by (simp add: process_document_def process_document_body_def)

lemma pd_outcome:
  "process_document st f md = Some r \<Longrightarrow>
     (\<exists>e. r = failure_result md e)
   \<or> (\<exists>p t chunks n ct. fp_exists f = Inr True \<and> get_processor_for_file f = Some p
         \<and> fp_extract f p = Inr t \<and> strip t \<noteq> []
         \<and> chunk_text st t None None = Some (Inr chunks)
         \<and> fp_st_size f = Inr n \<and> path_ctime f = Inr ct
         \<and> r = \<lparr>r_text = t, r_chunks = chunks,
                 r_metadata = file_facts f t chunks n ct ++ or_empty md,
                 r_success = True, r_error = None\<rparr>)"
  by (auto simp: process_document_def process_document_body_def
      split: sum.splits bool.splits option.splits if_splits)

text \<open>
  Every run that gets as far as line 273 ends in the handler, so every record that
  \<open>process_document\<close> returns is a failure record.
\<close>

lemma pd_never_succeeds:
  "process_document st f md = Some r \<Longrightarrow> \<not> r_success r \<and> (\<exists>e. r = failure_result md e)"
  using pd_outcome [of st f md r] by (auto simp: path_ctime_def failure_result_def)

lemma pd_reaches_ctime:
  "fp_exists f = Inr True \<Longrightarrow> get_processor_for_file f = Some p \<Longrightarrow> fp_extract f p = Inr t \<Longrightarrow>
   strip t \<noteq> [] \<Longrightarrow> chunk_text st t None None = Some (Inr chunks) \<Longrightarrow> fp_st_size f = Inr n \<Longrightarrow>
   process_document st f md = Some (failure_result md (Raise AttributeError msg_no_ctime))"
  by (simp add: process_document_def process_document_body_def path_ctime_def)

text \<open>
  The dictionary of lines 267 to 275, as the code would build it, has the precedence the
  specification describes: a key of the caller's metadata has the caller's value, any other
  key its file-derived value.
\<close>

lemma file_metadata_precedence:
  "(file_facts f t chunks n ct ++ or_empty md) k =
     (case or_empty md k of Some v \<Rightarrow> Some v | None \<Rightarrow> file_facts f t chunks n ct k)"
  by (simp add: map_add_def split: option.splits)

lemma pd_no_result:
  "process_document st f md = None \<Longrightarrow>
   \<exists>p t. fp_exists f = Inr True \<and> get_processor_for_file f = Some p \<and> fp_extract f p = Inr t
     \<and> chunk_text st t None None = None"
  by (auto simp: process_document_def process_document_body_def
      split: sum.splits bool.splits option.splits if_splits)

lemma pd_returns:
  assumes "0 \<le> CHUNK_OVERLAP st" and "CHUNK_OVERLAP st + 99 \<le> CHUNK_SIZE st"
  shows "\<exists>r. process_document st f md = Some r"
proof (cases "process_document st f md")
  case None
  from pd_no_result [OF this] obtain t where "chunk_text st t None None = None" by blast
  with chunk_text_returns [OF assms, of t] show ?thesis by simp
next
  case (Some r)
  then show ?thesis by simp
qed

text \<open>
  C5. \<open>process_document\<close> never hands an exception to its caller: whatever it returns is a
  record, either a success without an error field or the failure record of the handler,
  whose \<open>success\<close> is false and whose \<open>error\<close> is the message of the exception. A missing
  file, an extension without extractor, an extractor that raises and a blank extraction
  each give that failure record with the message of the failure. The call returns whenever
  the configured overlap is non-negative and at least 99 below the chunk size (the shipped
  1000 and 200 are); with no result at all, the chunking loop is the one that runs forever.
\<close>

theorem process_document_never_raises:
  "(\<forall>r. process_document st f md = Some r \<longrightarrow>
      (r_success r \<and> r_error r = None) \<or> (\<exists>e. r = failure_result md e))
   \<and> (process_document st f md = None \<longrightarrow>
        (\<exists>p t. fp_extract f p = Inr t \<and> chunk_text st t None None = None))
   \<and> (0 \<le> CHUNK_OVERLAP st \<and> CHUNK_OVERLAP st + 99 \<le> CHUNK_SIZE st \<longrightarrow>
        (\<exists>r. process_document st f md = Some r))
   \<and> (fp_exists f = Inr False \<longrightarrow>
        process_document st f md
          = Some (failure_result md (Raise FileNotFoundError (msg_not_found @ fp_str f))))
   \<and> (fp_exists f = Inr True \<and> get_processor_for_file f = None \<longrightarrow>
        process_document st f md
          = Some (failure_result md (Raise ValueError (msg_unsupported @ fp_suffix f))))
   \<and> (fp_exists f = Inr True \<and> get_processor_for_file f = Some p \<and> fp_extract f p = Inl e \<longrightarrow>
        process_document st f md = Some (failure_result md e))
   \<and> (fp_exists f = Inr True \<and> get_processor_for_file f = Some p \<and> fp_extract f p = Inr t
        \<and> strip t = [] \<longrightarrow>
        process_document st f md = Some (failure_result md (Raise ValueError msg_empty)))
   \<and> \<not> r_success (failure_result md e) \<and> r_error (failure_result md e) = Some (exn_str e)"
proof -
  have a: "\<forall>r. process_document st f md = Some r \<longrightarrow>
      (r_success r \<and> r_error r = None) \<or> (\<exists>e. r = failure_result md e)"
    using pd_outcome [of st f md] by auto
  have b: "process_document st f md = None \<longrightarrow>
        (\<exists>p t. fp_extract f p = Inr t \<and> chunk_text st t None None = None)"
    using pd_no_result [of st f md] by blast
  have c: "0 \<le> CHUNK_OVERLAP st \<and> CHUNK_OVERLAP st + 99 \<le> CHUNK_SIZE st \<longrightarrow>
        (\<exists>r. process_document st f md = Some r)"
    using pd_returns [of st f md] by blast
  have d: "\<not> r_success (failure_result md e) \<and> r_error (failure_result md e) = Some (exn_str e)"
    by (simp add: failure_result_def)
  have e1: "fp_exists f = Inr False \<longrightarrow>
        process_document st f md
          = Some (failure_result md (Raise FileNotFoundError (msg_not_found @ fp_str f)))"
    using pd_missing [of f st md] by blast
  have e2: "fp_exists f = Inr True \<and> get_processor_for_file f = None \<longrightarrow>
        process_document st f md
          = Some (failure_result md (Raise ValueError (msg_unsupported @ fp_suffix f)))"
    using pd_unsupported [of f st md] by blast
  have e3: "fp_exists f = Inr True \<and> get_processor_for_file f = Some p \<and> fp_extract f p = Inl e
        \<longrightarrow> process_document st f md = Some (failure_result md e)"
    using pd_extract_raises [of f p e st md] by blast
  have e4: "fp_exists f = Inr True \<and> get_processor_for_file f = Some p \<and> fp_extract f p = Inr t
        \<and> strip t = [] \<longrightarrow>
        process_document st f md = Some (failure_result md (Raise ValueError msg_empty))"
    using pd_blank [of f p t st md] by blast
  from a b c d e1 e2 e3 e4 show ?thesis by (intro conjI) (assumption | simp)+
qed

theorem process_document_never_raises_witness:
  "fp_exists missing_csv = Inr False
   \<and> process_document default_settings missing_csv None
       = Some \<lparr>r_text = [], r_chunks = [], r_metadata = Map.empty, r_success = False,
               r_error = Some (msg_not_found @ ''notes.csv'')\<rparr>
   \<and> 0 \<le> CHUNK_OVERLAP default_settings
   \<and> CHUNK_OVERLAP default_settings + 99 \<le> CHUNK_SIZE default_settings
   \<and> (\<exists>r. process_document default_settings missing_csv None = Some r)"
  using process_document_never_raises [of default_settings missing_csv None]
  by (simp add: missing_csv_def default_settings_def failure_result_def or_empty_def)

lemma hello_txt_facts:
  "fp_exists hello_txt = Inr True"
  "fp_extract hello_txt p = Inr ''hello world''"
  "fp_st_size hello_txt = Inr 11"
  "fp_suffix hello_txt = ''.TXT''"
  by (simp_all add: hello_txt_def)

lemma hello_txt_processor: "get_processor_for_file hello_txt = Some TXTProcessor"
  by code_simp

lemma hello_world_evaluated:
  "strip ''hello world'' = ''hello world''"
  "py_split ''hello world'' = [''hello'', ''world'']"
  "lstrip_dots (py_lower ''.TXT'') = ''txt''"
  by code_simp+

lemma hello_chunks:
  "chunk_text default_settings ''hello world'' None None = Some (Inr [''hello world''])"
  by (simp add: chunk_text_def default_settings_def)

lemma table_csv_facts:
  "fp_exists table_csv = Inr True"
  "fp_suffix table_csv = ''.CSV''"
  by (simp_all add: table_csv_def)

lemma table_csv_processor: "get_processor_for_file table_csv = None"
  by code_simp

lemma missing_csv_facts:
  "fp_exists missing_csv = Inr False"
  "fp_suffix missing_csv = ''.csv''"
  "fp_str missing_csv = ''notes.csv''"
  by (simp_all add: missing_csv_def)

lemma not_found_evaluated: "\<not> contains (msg_not_found @ ''notes.csv'') nao_suportado"
  by code_simp

text \<open>
  C6. According to the specification, a successful run returns as metadata the file facts
  overlaid with the caller's metadata. The code builds that dictionary, but its last
  file-derived entry is \<open>str(Path.ctime(file_path))\<close>, which raises: no run is successful.
  For the existing text file \<open>docs/hello.TXT\<close> holding \<open>hello world\<close>, the extractor is
  found, the text is extracted and chunked and the size is read, and the call still returns
  the failure record, whose metadata is the caller's alone.
\<close>

theorem process_document_hello_fails:
  "fp_exists hello_txt = Inr True
   \<and> get_processor_for_file hello_txt = Some TXTProcessor
   \<and> fp_extract hello_txt TXTProcessor = Inr ''hello world''
   \<and> chunk_text default_settings ''hello world'' None None = Some (Inr [''hello world''])
   \<and> fp_st_size hello_txt = Inr 11
   \<and> process_document default_settings hello_txt (Some [''file_name'' \<mapsto> PyStr ''renamed''])
       = Some \<lparr>r_text = [], r_chunks = [],
               r_metadata = [''file_name'' \<mapsto> PyStr ''renamed''],
               r_success = False, r_error = Some msg_no_ctime\<rparr>"
  using pd_reaches_ctime [OF hello_txt_facts(1) hello_txt_processor hello_txt_facts(2) _
      hello_chunks hello_txt_facts(3), of "Some [''file_name'' \<mapsto> PyStr ''renamed'']"]
  by (simp add: hello_txt_facts hello_txt_processor hello_chunks hello_world_evaluated
      failure_result_def or_empty_def)

text \<open>
  C8, as amended. For a file that exists and whose extension is \<open>.csv\<close>, or any extension
  without a matching extractor, \<open>process_document\<close> returns the failure record: no text,
  no chunks, \<open>success\<close> false, and as error the message of line 254
  (\<open>msg_unsupported\<close> followed by the suffix), which contains the unsupported-format
  text \<open>nao_suportado\<close>.
\<close>

theorem process_document_unsupported:
  assumes "fp_exists f = Inr True"
    and "fp_suffix f = ''.csv'' \<or> get_processor_for_file f = None"
  shows "process_document st f md
           = Some \<lparr>r_text = [], r_chunks = [], r_metadata = or_empty md, r_success = False,
                   r_error = Some (msg_unsupported @ fp_suffix f)\<rparr>
         \<and> contains (msg_unsupported @ fp_suffix f) nao_suportado"
proof -
  from assms(2) have "get_processor_for_file f = None"
    using csv_no_processor by blast
  from pd_unsupported [OF assms(1) this] show ?thesis
    by (simp add: failure_result_def unsupported_contains)
qed

theorem process_document_unsupported_witness:
  "fp_exists table_csv = Inr True
   \<and> get_processor_for_file table_csv = None
   \<and> process_document default_settings table_csv None
       = Some \<lparr>r_text = [], r_chunks = [], r_metadata = Map.empty, r_success = False,
               r_error = Some (msg_unsupported @ ''.CSV'')\<rparr>
   \<and> contains (msg_unsupported @ ''.CSV'') nao_suportado"
  using process_document_unsupported
    [OF table_csv_facts(1) disjI2 [OF table_csv_processor], of default_settings None]
  by (simp add: or_empty_def table_csv_facts table_csv_processor)

text \<open>
  C8, as stated, fails for a path whose file does not exist: the existence check comes
  first, and the error message of \<open>notes.csv\<close> is the one of the missing file, which does
  not contain the unsupported-format text.
\<close>

theorem missing_csv_not_unsupported:
  "fp_suffix missing_csv = ''.csv''
   \<and> process_document default_settings missing_csv None
       = Some \<lparr>r_text = [], r_chunks = [], r_metadata = Map.empty, r_success = False,
               r_error = Some (msg_not_found @ ''notes.csv'')\<rparr>
   \<and> \<not> contains (msg_not_found @ ''notes.csv'') nao_suportado"
  by (simp add: pd_missing missing_csv_facts failure_result_def or_empty_def not_found_evaluated)

text \<open>
  C10. Whenever \<open>process_document\<close> fails, the returned record has the empty string as
  text, the empty list as chunks, and as metadata exactly what the caller supplied (the
  empty dictionary when nothing was supplied): no file fact is added.
\<close>

theorem process_document_failure_record:
  assumes "process_document st f md = Some r" and "\<not> r_success r"
  shows "r_text r = [] \<and> r_chunks r = []
       \<and> r_metadata r = (case md of None \<Rightarrow> Map.empty | Some m \<Rightarrow> m)"
  using pd_outcome [OF assms(1)] assms(2) by (auto simp: failure_result_def or_empty_def)

theorem process_document_failure_record_witness:
  "\<exists>r. process_document default_settings table_csv (Some [''title'' \<mapsto> PyStr ''T'']) = Some r
     \<and> \<not> r_success r \<and> r_text r = [] \<and> r_chunks r = []
     \<and> r_metadata r = [''title'' \<mapsto> PyStr ''T'']"
proof -
  let ?md = "Some [''title'' \<mapsto> PyStr ''T'']"
  obtain r where run: "process_document default_settings table_csv ?md = Some r"
    and bad: "\<not> r_success r"
    using pd_unsupported [OF table_csv_facts(1) table_csv_processor, of default_settings ?md]
    by (simp add: failure_result_def)
  from process_document_failure_record [OF run bad] run bad show ?thesis by simp
qed

section \<open>Properties of the vector index\<close>

lemma parse_str_nat: "parse_nat (str_nat n) = n"
proof (induction n rule: str_nat.induct)
  case (1 n)
  show ?case
  proof (cases "n < 10")
    case True
    then show ?thesis by (subst str_nat.simps) (simp add: parse_nat_def)
  next
    case False
    with 1 have "parse_nat (str_nat (n div 10)) = n div 10" by simp
    moreover have "(48 + n mod 10) mod 256 = 48 + n mod 10"
      by (rule mod_less) (simp add: less_le_trans [OF add_strict_left_mono [OF mod_less_divisor]])
    ultimately show ?thesis using False
      by (subst str_nat.simps) (simp add: parse_nat_def)
  qed
qed

lemma str_nat_inj: "str_nat a = str_nat b \<Longrightarrow> a = b"
  by (metis parse_str_nat)

lemma digit_not_minus: "k < 10 \<Longrightarrow> char_of (48 + k :: nat) \<noteq> CHR ''-''"
  by (simp add: char_of_eq_iff take_bit_eq_mod)

lemma str_nat_no_minus: "CHR ''-'' \<notin> set (str_nat n)"
proof (induction n rule: str_nat.induct)
  case (1 n)
  show ?case
  proof (cases "n < 10")
    case True
    then show ?thesis using digit_not_minus [of n] by (subst str_nat.simps) auto
  next
    case False
    with 1 have "CHR ''-'' \<notin> set (str_nat (n div 10))" by simp
    moreover have "char_of (48 + n mod 10) \<noteq> CHR ''-''"
      by (rule digit_not_minus) simp
    ultimately show ?thesis using False by (subst str_nat.simps) auto
  qed
qed

lemma str_int_inj: "str_int a = str_int b \<Longrightarrow> a = b"
proof -
  assume eq: "str_int a = str_int b"
  have neg_pos: False if "x < 0" "\<not> y < 0" "str_int x = str_int y" for x y
  proof -
    from that have "CHR ''-'' \<in> set (str_nat (nat y))"
      by (simp add: str_int_def) (metis list.set_intros(1))
    with str_nat_no_minus show False by blast
  qed
  show ?thesis
  proof (cases "a < 0"; cases "b < 0")
    assume "a < 0" "b < 0"
    with eq have "nat (- a) = nat (- b)" by (simp add: str_int_def str_nat_inj)
    with \<open>a < 0\<close> \<open>b < 0\<close> show ?thesis by simp
  next
    assume "\<not> a < 0" "\<not> b < 0"
    with eq have "nat a = nat b" by (simp add: str_int_def str_nat_inj)
    with \<open>\<not> a < 0\<close> \<open>\<not> b < 0\<close> show ?thesis by simp
  next
    assume "a < 0" "\<not> b < 0"
    with neg_pos eq show ?thesis by blast
  next
    assume "\<not> a < 0" "b < 0"
    with neg_pos [of b a] eq show ?thesis by simp
  qed
qed

lemma get_collection_name_inj: "get_collection_name p = get_collection_name q \<Longrightarrow> p = q"
  by (simp add: get_collection_name_def str_int_inj)

lemma gocc_frame:
  assumes "cache_ok vs" and "get_or_create_collection vs q = (r, vs')"
  shows "cache_ok vs'" and "untouched_outside (get_collection_name q) vs vs'"
    and "r = Inr h \<Longrightarrow> h = get_collection_name q"
    and "r = Inr h \<Longrightarrow> client vs' \<noteq> None \<Longrightarrow> collection_records vs' h =
           (case collection_records vs h of None \<Rightarrow>
              (if collections vs h = None then Some [] else None) | Some recs \<Rightarrow> Some recs)"
    and "r = Inl e \<Longrightarrow> client vs = None"
  using assms
  by (auto simp: get_or_create_collection_def Let_def cache_ok_def untouched_outside_def
      collection_records_def chroma_get_or_create_collection_def
      split: option.splits if_splits)

lemma untouched_trans:
  "untouched_outside n a b \<Longrightarrow> untouched_outside n b c \<Longrightarrow> untouched_outside n a c"
  by (simp add: untouched_outside_def)

lemma set_client_frame:
  assumes "client vs = Some db" and "\<forall>n. n \<noteq> h \<longrightarrow> db' n = db n"
  shows "untouched_outside h vs (vs\<lparr>client := Some db'\<rparr>)"
  using assms by (simp add: untouched_outside_def collection_records_def)

lemma cache_ok_set_client: "cache_ok (vs\<lparr>client := c\<rparr>) = cache_ok vs"
  by (simp add: cache_ok_def)

lemma chroma_add_frame: "chroma_add db h new = Inr db' \<Longrightarrow> \<forall>n. n \<noteq> h \<longrightarrow> db' n = db n"
  by (auto simp: chroma_add_def split: option.splits if_splits)

lemma chroma_delete_frame: "chroma_delete db h ids = Inr db' \<Longrightarrow> \<forall>n. n \<noteq> h \<longrightarrow> db' n = db n"
  by (auto simp: chroma_delete_def split: option.splits)

lemma chroma_delete_collection_frame:
  "chroma_delete_collection db h = Inr db' \<Longrightarrow> \<forall>n. n \<noteq> h \<longrightarrow> db' n = db n"
  by (auto simp: chroma_delete_collection_def split: option.splits)

lemma add_document_frame:
  assumes "cache_ok vs"
  shows "cache_ok (snd (add_document vs q d chunks md))
       \<and> untouched_outside (get_collection_name q) vs (snd (add_document vs q d chunks md))"
proof -
  obtain r vs1 where g: "get_or_create_collection vs q = (r, vs1)" by (cases "get_or_create_collection vs q")
  note f = gocc_frame [OF assms g]
  show ?thesis
  proof (cases r)
    case (Inl e)
    with g f show ?thesis by (simp add: add_document_def)
  next
    case (Inr h)
    with f have h: "h = get_collection_name q" by simp
    show ?thesis
    proof (cases "client vs1")
      case None
      with g Inr f show ?thesis by (simp add: add_document_def)
    next
      case (Some db)
      show ?thesis
      proof (cases "chroma_add db h (map (\<lambda>(i, chunk). chunk_record d md i chunk)
                           (zip [0..<length chunks] chunks))")
        case (Inl e)
        with g Inr Some f show ?thesis by (simp add: add_document_def)
      next
        case (Inr db')
        from set_client_frame [OF Some chroma_add_frame [OF Inr]] f(2) h
        have "untouched_outside (get_collection_name q) vs (vs1\<lparr>client := Some db'\<rparr>)"
          using untouched_trans by blast
        with g \<open>r = Inr h\<close> Some Inr f(1) show ?thesis
          by (simp add: add_document_def cache_ok_set_client)
      qed
    qed
  qed
qed

lemma delete_document_frame:
  assumes "cache_ok vs"
  shows "cache_ok (snd (delete_document vs q d))
       \<and> untouched_outside (get_collection_name q) vs (snd (delete_document vs q d))"
proof -
  obtain r vs1 where g: "get_or_create_collection vs q = (r, vs1)" by (cases "get_or_create_collection vs q")
  note f = gocc_frame [OF assms g]
  show ?thesis
  proof (cases r)
    case (Inl e)
    with g f show ?thesis by (simp add: delete_document_def)
  next
    case (Inr h)
    with f have h: "h = get_collection_name q" by simp
    show ?thesis
    proof (cases "client vs1")
      case None
      with g Inr f show ?thesis by (simp add: delete_document_def)
    next
      case (Some db)
      show ?thesis
      proof (cases "chroma_get db h (Some [(''document_id'', PyStr d)])")
        case (Inl e)
        with g Inr Some f show ?thesis by (simp add: delete_document_def)
      next
        case found: (Inr found)
        show ?thesis
        proof (cases "found \<noteq> []")
          case False
          with g Inr Some found f show ?thesis by (simp add: delete_document_def)
        next
          case True
          show ?thesis
          proof (cases "chroma_delete db h (map rec_id found)")
            case (Inl e)
            with g \<open>r = Inr h\<close> Some found True f show ?thesis by (simp add: delete_document_def)
          next
            case del: (Inr db')
            from set_client_frame [OF Some chroma_delete_frame [OF del]] f(2) h
            have "untouched_outside (get_collection_name q) vs (vs1\<lparr>client := Some db'\<rparr>)"
              using untouched_trans by blast
            with g \<open>r = Inr h\<close> Some found True del f(1) show ?thesis
              by (simp add: delete_document_def cache_ok_set_client)
          qed
        qed
      qed
    qed
  qed
qed

lemma clear_frame:
  assumes "cache_ok vs"
  shows "cache_ok (snd (clear_persona_collection vs q))
       \<and> untouched_outside (get_collection_name q) vs (snd (clear_persona_collection vs q))"
  using assms
  by (auto simp: clear_persona_collection_def Let_def cache_ok_def untouched_outside_def
      collection_records_def chroma_delete_collection_def split: option.splits if_splits)

lemma search_frame:
  assumes "cache_ok vs"
  shows "cache_ok (snd (search_similar_content st vs q query n w))
       \<and> untouched_outside (get_collection_name q) vs
           (snd (search_similar_content st vs q query n w))"
proof -
  obtain r vs1 where g: "get_or_create_collection vs q = (r, vs1)" by (cases "get_or_create_collection vs q")
  note f = gocc_frame [OF assms g]
  have "snd (search_similar_content st vs q query n w) = vs1"
    using g by (simp add: search_similar_content_def Let_def split: sum.splits option.splits)
  with f show ?thesis by simp
qed

lemma reachable_cache_ok: "reachable vs \<Longrightarrow> cache_ok vs"
proof (induction rule: reachable.induct)
  case (new distance)
  show ?case by (simp add: cache_ok_def new_vector_store_def)
next
  case (init vs db)
  then show ?case by (simp add: cache_ok_def initialize_def)
next
  case (add vs p d chunks md)
  then show ?case using add_document_frame by blast
next
  case (search vs st p query n w)
  then show ?case using search_frame by blast
next
  case (delete vs p d)
  then show ?case using delete_document_frame by blast
next
  case (clear vs p)
  then show ?case using clear_frame by blast
qed

lemma persona_records_eq: "persona_records vs p = collection_records vs (get_collection_name p)"
  by (simp add: persona_records_def collection_records_def)

lemma search_view:
  assumes "cache_ok vs"
  shows "fst (search_similar_content st vs p query n w) =
     (if client vs = None then []
      else ranked_results (embedding_distance vs)
             (case persona_records vs p of None \<Rightarrow> [] | Some recs \<Rightarrow> recs) query
             (case n of None \<Rightarrow> TOP_K_RETRIEVAL st | Some k \<Rightarrow> k) w)"
proof -
  from assms have "collections vs (get_collection_name p) = None
      \<or> collections vs (get_collection_name p) = Some (get_collection_name p)"
    by (cases "collections vs (get_collection_name p)") (auto simp: cache_ok_def)
  then show ?thesis
    by (auto simp: search_similar_content_def get_or_create_collection_def Let_def
        persona_records_def ranked_results_def chroma_query_def
        chroma_get_or_create_collection_def
        split: option.splits sum.splits if_splits)
qed

lemma ranked_results_from:
  assumes "r \<in> set (ranked_results distance recs query n w)"
  shows "\<exists>c \<in> set recs. sr_id r = Some (rec_id c) \<and> sr_content r = rec_document c
           \<and> sr_metadata r = rec_metadata c"
proof -
  from assms obtain c d where
    "(c, d) \<in> set (take (nat n) (sort_key snd (map (\<lambda>r. (r, distance query (rec_document r)))
                                             (filter (matches_where w) recs))))"
    and r: "r = \<lparr>sr_content = rec_document c, sr_metadata = rec_metadata c,
                          sr_distance = d, sr_id = Some (rec_id c)\<rparr>"
    by (auto simp: ranked_results_def split: if_splits)
  then have "(c, d) \<in> set (map (\<lambda>r. (r, distance query (rec_document r)))
                                             (filter (matches_where w) recs))"
    using set_take_subset by fastforce
  then have "c \<in> set recs" by auto
  with r show ?thesis by auto
qed

lemma untouched_records:
  assumes "untouched_outside (get_collection_name q) vs vs'" and "p \<noteq> q"
  shows "persona_records vs' p = persona_records vs p"
    and "embedding_distance vs' = embedding_distance vs"
    and "client vs' = None \<longleftrightarrow> client vs = None"
proof -
  from assms(2) have "get_collection_name p \<noteq> get_collection_name q"
    using get_collection_name_inj by blast
  with assms(1) show "persona_records vs' p = persona_records vs p"
    by (simp add: untouched_outside_def persona_records_eq)
  from assms(1) show "embedding_distance vs' = embedding_distance vs"
    and "client vs' = None \<longleftrightarrow> client vs = None"
    by (simp_all add: untouched_outside_def)
qed

lemma search_untouched:
  assumes "cache_ok vs" and "cache_ok vs'"
    and "untouched_outside (get_collection_name q) vs vs'" and "p \<noteq> q"
  shows "fst (search_similar_content st vs' p query n w)
       = fst (search_similar_content st vs p query n w)"
  using untouched_records [OF assms(3,4)]
  by (simp add: search_view [OF assms(1)] search_view [OF assms(2)])

lemma store_one_reachable: "reachable store_one"
  unfolding store_one_def by (intro reachable.intros)

lemma store_one_search:
  "map sr_id (fst (search_similar_content default_settings store_one 1 ''hello'' None None))
     = [Some ''doc_chunk_0'', Some ''doc_chunk_1'']"
  by code_simp

text \<open>
  C7. For distinct personas \<open>p\<close> and \<open>q\<close>, in every state the service can reach: adding a
  document, deleting a document and clearing the collection under \<open>q\<close> leave the records
  of \<open>p\<close>'s collection as they were; a search scoped to \<open>p\<close> returns the same list after
  any of these operations under \<open>q\<close> as before it; and every result of a search scoped
  to \<open>p\<close> is a record of \<open>p\<close>'s own collection.
\<close>

theorem persona_isolation:
  assumes "reachable vs" and "p \<noteq> q"
  shows "persona_records (snd (add_document vs q d chunks md)) p = persona_records vs p
       \<and> persona_records (snd (delete_document vs q d)) p = persona_records vs p
       \<and> persona_records (snd (clear_persona_collection vs q)) p = persona_records vs p
       \<and> fst (search_similar_content st (snd (add_document vs q d chunks md)) p query n w)
           = fst (search_similar_content st vs p query n w)
       \<and> fst (search_similar_content st (snd (delete_document vs q d)) p query n w)
           = fst (search_similar_content st vs p query n w)
       \<and> fst (search_similar_content st (snd (clear_persona_collection vs q)) p query n w)
           = fst (search_similar_content st vs p query n w)
       \<and> (\<forall>r \<in> set (fst (search_similar_content st vs p query n w)).
            \<exists>c \<in> set (case persona_records vs p of None \<Rightarrow> [] | Some recs \<Rightarrow> recs).
              sr_id r = Some (rec_id c) \<and> sr_content r = rec_document c
            \<and> sr_metadata r = rec_metadata c)"
proof -
  from assms(1) have ok: "cache_ok vs" by (rule reachable_cache_ok)
  note a = add_document_frame [OF ok, of q d chunks md]
  note b = delete_document_frame [OF ok, of q d]
  note c = clear_frame [OF ok, of q]
  have 1: "persona_records (snd (add_document vs q d chunks md)) p = persona_records vs p"
    using a untouched_records(1) [OF _ assms(2)] by blast
  have 2: "persona_records (snd (delete_document vs q d)) p = persona_records vs p"
    using b untouched_records(1) [OF _ assms(2)] by blast
  have 3: "persona_records (snd (clear_persona_collection vs q)) p = persona_records vs p"
    using c untouched_records(1) [OF _ assms(2)] by blast
  have 4: "fst (search_similar_content st (snd (add_document vs q d chunks md)) p query n w)
           = fst (search_similar_content st vs p query n w)"
    using a search_untouched [OF ok _ _ assms(2)] by blast
  have 6: "fst (search_similar_content st (snd (delete_document vs q d)) p query n w)
           = fst (search_similar_content st vs p query n w)"
    using b search_untouched [OF ok _ _ assms(2)] by blast
  have 7: "fst (search_similar_content st (snd (clear_persona_collection vs q)) p query n w)
           = fst (search_similar_content st vs p query n w)"
    using c search_untouched [OF ok _ _ assms(2)] by blast
  have 5: "\<forall>r \<in> set (fst (search_similar_content st vs p query n w)).
            \<exists>c \<in> set (case persona_records vs p of None \<Rightarrow> [] | Some recs \<Rightarrow> recs).
              sr_id r = Some (rec_id c) \<and> sr_content r = rec_document c
            \<and> sr_metadata r = rec_metadata c"
  proof
    fix r
    assume "r \<in> set (fst (search_similar_content st vs p query n w))"
    then have "r \<in> set (ranked_results (embedding_distance vs)
             (case persona_records vs p of None \<Rightarrow> [] | Some recs \<Rightarrow> recs) query
             (case n of None \<Rightarrow> TOP_K_RETRIEVAL st | Some k \<Rightarrow> k) w)"
      by (simp add: search_view [OF ok] split: if_splits)
    then show "\<exists>c \<in> set (case persona_records vs p of None \<Rightarrow> [] | Some recs \<Rightarrow> recs).
              sr_id r = Some (rec_id c) \<and> sr_content r = rec_document c
            \<and> sr_metadata r = rec_metadata c"
      by (rule ranked_results_from)
  qed
  from 1 2 3 4 6 7 5 show ?thesis by (intro conjI)
qed

theorem persona_isolation_witness:
  "reachable store_one \<and> (1::int) \<noteq> 2
   \<and> persona_records (snd (add_document store_one 2 ''other'' [''hello''] Map.empty)) 1
       = persona_records store_one 1
   \<and> map sr_id (fst (search_similar_content default_settings
          (snd (add_document store_one 2 ''other'' [''hello''] Map.empty)) 1 ''hello'' None None))
       = [Some ''doc_chunk_0'', Some ''doc_chunk_1'']"
proof -
  have ne: "(1::int) \<noteq> 2" by simp
  from persona_isolation [OF store_one_reachable ne, of "''other''" "[''hello'']" Map.empty
      default_settings "''hello''" None None]
  show ?thesis using store_one_reachable store_one_search by simp
qed

section \<open>Properties of the context assembler\<close>

lemma py_slice_prefix: "0 \<le> n \<Longrightarrow> py_slice s 0 n = take (nat n) s"
  by (auto simp: py_slice_def Let_def min_def)

lemma length_doc_parts: "length (doc_parts i docs) = 3 * length docs"
  by (induction docs arbitrary: i) auto

lemma doc_parts_nth:
  "k < length docs \<Longrightarrow>
     doc_parts i docs ! (3 * k) = doc_info (i + k) (docs ! k) @ '':''
   \<and> doc_parts i docs ! (3 * k + 1) = take 500 (sr_content (docs ! k))
   \<and> doc_parts i docs ! (3 * k + 2) = ''---''"
proof (induction docs arbitrary: i k)
  case Nil
  then show ?case by simp
next
  case (Cons doc docs)
  show ?case
  proof (cases k)
    case 0
    then show ?thesis by (simp add: py_slice_prefix)
  next
    case (Suc j)
    with Cons.prems have "j < length docs" by simp
    from Cons.IH [OF this, of "Suc i"] Suc show ?thesis
      by (simp add: nth_Cons')
  qed
qed

lemma doc_info_header: "\<exists>rest. doc_info i doc = ''Documento '' @ str_nat i @ rest"
  by (auto simp: doc_info_def split: option.splits)

lemma py_join_Cons: "py_join sep (x # xs) = x @ concat (map (\<lambda>y. sep @ y) xs)"
  by (induction xs arbitrary: x) simp_all

lemma doc_info_eq:
  "doc_info i doc = ''Documento '' @ str_nat i
     @ (case sr_metadata doc ''title'' of
          None \<Rightarrow> []
        | Some title \<Rightarrow> if truthy title then '' - '' @ py_str title else [])"
  by (simp add: doc_info_def split: option.splits)

lemma doc_parts_concat:
  "concat (map (\<lambda>y. sep @ y) (doc_parts i ds)) =
   concat (map (\<lambda>(k, doc). sep @ doc_info k doc @ '':'' @ sep @ take 500 (sr_content doc)
                              @ sep @ ''---'')
               (enumerate i ds))"
  by (induction ds arbitrary: i) (simp_all add: py_slice_prefix)

lemma context_string:
  "py_join sep (title # doc_parts i ds) =
   title @ concat (map (\<lambda>(k, doc). sep @ doc_info k doc @ '':'' @ sep
                                 @ take 500 (sr_content doc) @ sep @ ''---'')
                       (enumerate i ds))"
  by (simp only: py_join_Cons doc_parts_concat)

lemma assemble_context_string:
  assumes "docs \<noteq> []"
  shows "assemble_context (Inr docs) =
     ''CONTEXTO DA BASE DE CONHECIMENTO:''
     @ concat (map (\<lambda>(i, doc).
          [CHR 0x5C, CHR ''n''] @ ''Documento '' @ str_nat i
          @ (case sr_metadata doc ''title'' of
               None \<Rightarrow> []
             | Some title \<Rightarrow> if truthy title then '' - '' @ py_str title else [])
          @ '':''
          @ [CHR 0x5C, CHR ''n''] @ take 500 (sr_content doc)
          @ [CHR 0x5C, CHR ''n''] @ ''---'')
        (enumerate 1 (take 3 docs)))"
  using assms
  by (simp add: assemble_context_def context_parts_def context_string doc_info_eq)

lemma sample_string:
  "''CONTEXTO DA BASE DE CONHECIMENTO:''
     @ concat (map (\<lambda>(i, doc).
          [CHR 0x5C, CHR ''n''] @ ''Documento '' @ str_nat i
          @ (case sr_metadata doc ''title'' of
               None \<Rightarrow> []
             | Some title \<Rightarrow> if truthy title then '' - '' @ py_str title else [])
          @ '':''
          @ [CHR 0x5C, CHR ''n''] @ take 500 (sr_content doc)
          @ [CHR 0x5C, CHR ''n''] @ ''---'')
        (enumerate 1 (take 3 sample_results)))
   = ''CONTEXTO DA BASE DE CONHECIMENTO:''
     @ [CHR 0x5C] @ ''nDocumento 1 - Guide:'' @ [CHR 0x5C] @ ''nhello'' @ [CHR 0x5C] @ ''n---''
     @ [CHR 0x5C] @ ''nDocumento 2:'' @ [CHR 0x5C] @ ''n'' @ replicate 500 (CHR ''x'')
     @ [CHR 0x5C] @ ''n---''
     @ [CHR 0x5C] @ ''nDocumento 3:'' @ [CHR 0x5C] @ ''nthird'' @ [CHR 0x5C] @ ''n---''"
  by code_simp

lemma store_one_context:
  "fst (get_relevant_context default_settings store_one 1 ''hello'')
   = ''CONTEXTO DA BASE DE CONHECIMENTO:''
     @ [CHR 0x5C] @ ''nDocumento 1:'' @ [CHR 0x5C] @ ''nhello'' @ [CHR 0x5C] @ ''n---''
     @ [CHR 0x5C] @ ''nDocumento 2:'' @ [CHR 0x5C] @ ''nworld'' @ [CHR 0x5C] @ ''n---''"
  by code_simp

text \<open>
  C9. The context assembler returns the empty string when the search raises and when it
  yields no result (in particular when the index has no client). Otherwise the returned
  string is the title line followed, for each of at most the first three results, by the
  separator and a header \<open>Documento N\<close> (with the title when there is one) ending in a
  colon, the separator and the content cut to at most 500 characters, and the separator
  and the line \<open>---\<close>.
\<close>

theorem relevant_context_shape:
  "assemble_context (Inl e) = []
   \<and> assemble_context (Inr []) = []
   \<and> (docs \<noteq> [] \<longrightarrow>
        assemble_context (Inr docs) =
          ''CONTEXTO DA BASE DE CONHECIMENTO:''
          @ concat (map (\<lambda>(i, doc).
               [CHR 0x5C, CHR ''n''] @ ''Documento '' @ str_nat i
               @ (case sr_metadata doc ''title'' of
                    None \<Rightarrow> []
                  | Some title \<Rightarrow> if truthy title then '' - '' @ py_str title else [])
               @ '':''
               @ [CHR 0x5C, CHR ''n''] @ take 500 (sr_content doc)
               @ [CHR 0x5C, CHR ''n''] @ ''---'')
             (enumerate 1 (take 3 docs)))
      \<and> length (context_parts docs) = 1 + 3 * min 3 (length docs)
      \<and> (\<forall>k < min 3 (length docs).
            context_parts docs ! (3 * k + 1) = doc_info (k + 1) (docs ! k) @ '':''
          \<and> (\<exists>rest. doc_info (k + 1) (docs ! k) = ''Documento '' @ str_nat (k + 1) @ rest)
          \<and> context_parts docs ! (3 * k + 2) = take 500 (sr_content (docs ! k))
          \<and> length (context_parts docs ! (3 * k + 2)) \<le> 500
          \<and> context_parts docs ! (3 * k + 3) = ''---''))
   \<and> fst (get_relevant_context st vs p query)
       = assemble_context
           (Inr (fst (search_similar_content st vs p query (Some (TOP_K_RETRIEVAL st)) None)))
   \<and> (fst (search_similar_content st vs p query (Some (TOP_K_RETRIEVAL st)) None) = [] \<longrightarrow>
        fst (get_relevant_context st vs p query) = [])
   \<and> (client vs = None \<longrightarrow> fst (get_relevant_context st vs p query) = [])"
proof -
  have a: "assemble_context (Inl e) = []" "assemble_context (Inr []) = []"
    by (simp_all add: assemble_context_def)
  note b = assemble_context_string [of docs]
  have c: "length (context_parts docs) = 1 + 3 * min 3 (length docs)"
    by (simp add: context_parts_def length_doc_parts min_def)
  have d: "context_parts docs ! (3 * k + 1) = doc_info (k + 1) (docs ! k) @ '':''
          \<and> (\<exists>rest. doc_info (k + 1) (docs ! k) = ''Documento '' @ str_nat (k + 1) @ rest)
          \<and> context_parts docs ! (3 * k + 2) = take 500 (sr_content (docs ! k))
          \<and> length (context_parts docs ! (3 * k + 2)) \<le> 500
          \<and> context_parts docs ! (3 * k + 3) = ''---''"
    if "k < min 3 (length docs)" for k
  proof -
    from that have k: "k < length (take 3 docs)" by simp
    from doc_parts_nth [OF k, of 1] that doc_info_header [of "k + 1" "docs ! k"]
    show ?thesis by (simp add: context_parts_def)
  qed
  have f: "fst (get_relevant_context st vs p query)
       = assemble_context
           (Inr (fst (search_similar_content st vs p query (Some (TOP_K_RETRIEVAL st)) None)))"
    by (simp add: get_relevant_context_def split: prod.splits)
  have g: "fst (get_relevant_context st vs p query) = []"
    if "fst (search_similar_content st vs p query (Some (TOP_K_RETRIEVAL st)) None) = []"
    using that by (simp add: f a)
  have h: "fst (search_similar_content st vs p query (Some (TOP_K_RETRIEVAL st)) None) = []"
    if "client vs = None"
    using that
    by (auto simp: search_similar_content_def get_or_create_collection_def Let_def
        split: option.splits sum.splits)
  have bcd: "docs \<noteq> [] \<longrightarrow>
        assemble_context (Inr docs) =
          ''CONTEXTO DA BASE DE CONHECIMENTO:''
          @ concat (map (\<lambda>(i, doc).
               [CHR 0x5C, CHR ''n''] @ ''Documento '' @ str_nat i
               @ (case sr_metadata doc ''title'' of
                    None \<Rightarrow> []
                  | Some title \<Rightarrow> if truthy title then '' - '' @ py_str title else [])
               @ '':''
               @ [CHR 0x5C, CHR ''n''] @ take 500 (sr_content doc)
               @ [CHR 0x5C, CHR ''n''] @ ''---'')
             (enumerate 1 (take 3 docs)))
      \<and> length (context_parts docs) = 1 + 3 * min 3 (length docs)
      \<and> (\<forall>k < min 3 (length docs).
            context_parts docs ! (3 * k + 1) = doc_info (k + 1) (docs ! k) @ '':''
          \<and> (\<exists>rest. doc_info (k + 1) (docs ! k) = ''Documento '' @ str_nat (k + 1) @ rest)
          \<and> context_parts docs ! (3 * k + 2) = take 500 (sr_content (docs ! k))
          \<and> length (context_parts docs ! (3 * k + 2)) \<le> 500
          \<and> context_parts docs ! (3 * k + 3) = ''---'')"
    using b c d by blast
  have gh: "client vs = None \<longrightarrow> fst (get_relevant_context st vs p query) = []"
    using g h by blast
  have g': "fst (search_similar_content st vs p query (Some (TOP_K_RETRIEVAL st)) None) = [] \<longrightarrow>
        fst (get_relevant_context st vs p query) = []"
    using g by blast
  from a bcd f g' gh show ?thesis by (intro conjI)
qed

theorem relevant_context_shape_witness:
  "sample_results \<noteq> []
   \<and> assemble_context (Inr sample_results)
       = ''CONTEXTO DA BASE DE CONHECIMENTO:''
         @ [CHR 0x5C] @ ''nDocumento 1 - Guide:'' @ [CHR 0x5C] @ ''nhello'' @ [CHR 0x5C] @ ''n---''
         @ [CHR 0x5C] @ ''nDocumento 2:'' @ [CHR 0x5C] @ ''n'' @ replicate 500 (CHR ''x'')
         @ [CHR 0x5C] @ ''n---''
         @ [CHR 0x5C] @ ''nDocumento 3:'' @ [CHR 0x5C] @ ''nthird'' @ [CHR 0x5C] @ ''n---''
   \<and> length (context_parts sample_results) = 10
   \<and> client (new_vector_store exact_distance) = None
   \<and> fst (get_relevant_context default_settings (new_vector_store exact_distance) 1 ''hello'') = []
   \<and> fst (get_relevant_context default_settings store_one 1 ''hello'')
       = ''CONTEXTO DA BASE DE CONHECIMENTO:''
         @ [CHR 0x5C] @ ''nDocumento 1:'' @ [CHR 0x5C] @ ''nhello'' @ [CHR 0x5C] @ ''n---''
         @ [CHR 0x5C] @ ''nDocumento 2:'' @ [CHR 0x5C] @ ''nworld'' @ [CHR 0x5C] @ ''n---''"
proof -
  have len: "length sample_results = 4" by (simp add: sample_results_def)
  have ne: "sample_results \<noteq> []" by (simp add: sample_results_def)
  have nc: "client (new_vector_store exact_distance) = None"
    by (simp add: new_vector_store_def)
  note shape = relevant_context_shape [where docs = sample_results and st = default_settings
      and vs = "new_vector_store exact_distance" and p = 1 and query = "''hello''"
      and e = "Raise OtherError []"]
  from shape ne have "assemble_context (Inr sample_results)
       = ''CONTEXTO DA BASE DE CONHECIMENTO:''
         @ [CHR 0x5C] @ ''nDocumento 1 - Guide:'' @ [CHR 0x5C] @ ''nhello'' @ [CHR 0x5C] @ ''n---''
         @ [CHR 0x5C] @ ''nDocumento 2:'' @ [CHR 0x5C] @ ''n'' @ replicate 500 (CHR ''x'')
         @ [CHR 0x5C] @ ''n---''
         @ [CHR 0x5C] @ ''nDocumento 3:'' @ [CHR 0x5C] @ ''nthird'' @ [CHR 0x5C] @ ''n---''"
    by (simp only: sample_string simp_thms)
  moreover from shape ne have "length (context_parts sample_results) = 10"
    by (simp add: len)
  moreover from shape nc
  have "fst (get_relevant_context default_settings (new_vector_store exact_distance) 1 ''hello'')
      = []" by blast
  ultimately show ?thesis using ne nc store_one_context by (intro conjI)
qed

end
